theory Spec2Isabelle
  imports Complex_Main "HOL-Library.Sublist"
begin

section \<open>Values of the sheet and Python's errors\<close>

text \<open>
  The program (\<^verbatim>\<open>app.py\<close>) reads a sheet with \<^verbatim>\<open>pd.read_excel(..., header=None)\<close>,
  cuts it into records, filters the records by ranges and colours each shown record by a
  quality factor. A cell of the sheet is a number, a blank (pandas reads it as NaN) or a
  text. A float is modelled by the real number it denotes. The quotient of the quality
  factor has an integer value and is taken as exact; the differences and sums that give
  the bounds of the filters are rounded to double precision (\<open>fl\<close> below).
\<close>

datatype cell = Num real | NaN | Text string

datatype error = IndexError | KeyError | TypeError | ValueError | ZeroDivisionError

text \<open>
  The seven keys of the dictionaries appended to \<^verbatim>\<open>results\<close> (lines 182-190), which are
  the seven columns of \<^verbatim>\<open>df_all\<close>. \<^verbatim>\<open>Uebersetzung\<close> stands for the key spelled with
  U-umlaut in the source.
\<close>

datatype colname =
  Spalte | Polzahl_Stator | Polzahl_Rotor | Modulatorzahl
  | Uebersetzung | Drehmoment_Modulator | Drehmoment_Rotor

text \<open>A dictionary with exactly these seven keys, and a row of a frame built from them.\<close>

type_synonym row = "colname \<Rightarrow> cell"

section \<open>The quality factor: \<^verbatim>\<open>berechne_qualitaet\<close> (lines 88-101)\<close>

text \<open>
  Python's \<^verbatim>\<open>round(x)\<close> with one argument returns the nearest integer, and of the two
  nearest the even one when \<open>x\<close> lies halfway.
\<close>

definition py_round :: "real \<Rightarrow> int" where
  "py_round x =
     (let f = \<lfloor>x\<rfloor>; d = x - of_int f
      in if d < 1 / 2 then f
         else if 1 / 2 < d then f + 1
         else if even f then f else f + 1)"

text \<open>
  \<^verbatim>\<open>int(round(v))\<close> on a cell: \<^verbatim>\<open>round\<close> raises ValueError on NaN and TypeError on a
  string.
\<close>

fun int_round :: "cell \<Rightarrow> error + int" where
  "int_round (Num x) = Inr (py_round x)"
| "int_round NaN = Inl ValueError"
| "int_round (Text s) = Inl TypeError"

text \<open>Python's \<^verbatim>\<open>//\<close> and \<^verbatim>\<open>/\<close> on integers: both raise ZeroDivisionError on a zero divisor.\<close>

definition floordiv :: "int \<Rightarrow> int \<Rightarrow> error + int" where
  "floordiv a b = (if b = 0 then Inl ZeroDivisionError else Inr (a div b))"

definition truediv :: "int \<Rightarrow> int \<Rightarrow> error + real" where
  "truediv a b = (if b = 0 then Inl ZeroDivisionError else Inr (real_of_int a / real_of_int b))"

definition berechne_qualitaet :: "row \<Rightarrow> error + real" where
  "berechne_qualitaet row =
     (case int_round (row Modulatorzahl) of Inl e \<Rightarrow> Inl e | Inr mod_v \<Rightarrow>
     (case int_round (row Polzahl_Rotor) of Inl e \<Rightarrow> Inl e | Inr rotor \<Rightarrow>
     (case floordiv (mod_v * rotor) (gcd mod_v rotor) of Inl e \<Rightarrow> Inl e | Inr kgv \<Rightarrow>
        truediv (mod_v * rotor) kgv)))"

section \<open>Extraction of the records (lines 166-194)\<close>

text \<open>
  The frame \<^verbatim>\<open>df\<close> read from the sheet is the list of its rows; a frame has as many
  cells in every row (\<open>rectangular\<close>). \<^verbatim>\<open>len(df)\<close> is the number of rows and, with
  \<^verbatim>\<open>header=None\<close>, \<^verbatim>\<open>df.columns\<close> is \<open>0, 1, ...\<close>. Positional access outside the frame
  raises IndexError.
\<close>

type_synonym grid = "cell list list"

definition ncols :: "grid \<Rightarrow> nat" where
  "ncols df = (case df of [] \<Rightarrow> 0 | r # _ \<Rightarrow> length r)"

definition rectangular :: "grid \<Rightarrow> bool" where
  "rectangular df = list_all (\<lambda>r. length r = ncols df) df"

definition df_columns :: "grid \<Rightarrow> nat list" where
  "df_columns df = [0..<ncols df]"

definition iloc :: "grid \<Rightarrow> nat \<Rightarrow> nat \<Rightarrow> error + cell" where
  "iloc df r c =
     (if r < length df \<and> c < length (df ! r) then Inr (df ! r ! c) else Inl IndexError)"

definition iloc_row :: "grid \<Rightarrow> nat \<Rightarrow> error + cell list" where
  "iloc_row df r = (if r < length df then Inr (df ! r) else Inl IndexError)"

text \<open>The dictionary literal of lines 182-190.\<close>

definition dict :: "nat \<Rightarrow> cell \<Rightarrow> cell \<Rightarrow> cell \<Rightarrow> cell \<Rightarrow> cell \<Rightarrow> cell \<Rightarrow> row" where
  "dict col stator rotor mod_v ratio torque_mod torque_rot =
     (\<lambda>k. case k of
        Spalte \<Rightarrow> Num (real col)
      | Polzahl_Stator \<Rightarrow> stator
      | Polzahl_Rotor \<Rightarrow> rotor
      | Modulatorzahl \<Rightarrow> mod_v
      | Uebersetzung \<Rightarrow> ratio
      | Drehmoment_Modulator \<Rightarrow> torque_mod
      | Drehmoment_Rotor \<Rightarrow> torque_rot)"

text \<open>The inner loop, lines 175-191: \<^verbatim>\<open>while start_row + 4 < len(df)\<close>.\<close>

function while_blocks :: "grid \<Rightarrow> nat \<Rightarrow> cell \<Rightarrow> nat \<Rightarrow> row list \<Rightarrow> error + row list" where
  "while_blocks df col stator start_row acc =
     (if start_row + 4 < length df then
       (case iloc df start_row col of Inl e \<Rightarrow> Inl e | Inr rotor \<Rightarrow>
       (case iloc df (start_row + 1) col of Inl e \<Rightarrow> Inl e | Inr mod_v \<Rightarrow>
       (case iloc df (start_row + 2) col of Inl e \<Rightarrow> Inl e | Inr ratio \<Rightarrow>
       (case iloc df (start_row + 3) col of Inl e \<Rightarrow> Inl e | Inr torque_mod \<Rightarrow>
       (case iloc df (start_row + 4) col of Inl e \<Rightarrow> Inl e | Inr torque_rot \<Rightarrow>
          while_blocks df col stator (start_row + 5)
            (acc @ [dict col stator rotor mod_v ratio torque_mod torque_rot]))))))
      else Inr acc)"
  by pat_completeness auto
termination
  by (relation "measure (\<lambda>(df, col, stator, start_row, acc). length df - start_row)") auto

declare while_blocks.simps [simp del]

text \<open>The outer loop, lines 172-174: \<^verbatim>\<open>for col in df.columns\<close>.\<close>

fun for_columns :: "grid \<Rightarrow> nat list \<Rightarrow> row list \<Rightarrow> error + row list" where
  "for_columns df [] acc = Inr acc"
| "for_columns df (col # cols) acc =
     (case iloc df 0 col of Inl e \<Rightarrow> Inl e | Inr stator \<Rightarrow>
     (case while_blocks df col stator 1 acc of Inl e \<Rightarrow> Inl e | Inr acc' \<Rightarrow>
        for_columns df cols acc'))"

text \<open>
  Lines 168-191: \<^verbatim>\<open>p_stator = df.iloc[0, :].tolist()\<close> comes first and raises IndexError
  on a frame without rows; \<^verbatim>\<open>results\<close> starts empty.
\<close>

definition extract_results :: "grid \<Rightarrow> error + row list" where
  "extract_results df =
     (case iloc_row df 0 of Inl e \<Rightarrow> Inl e | Inr p_stator \<Rightarrow> for_columns df (df_columns df) [])"

text \<open>
  The record of the block that starts at row \<open>s\<close> of column \<open>col\<close>: the five cells
  \<open>s, ..., s + 4\<close> as they stand in the sheet.
\<close>

definition block_dict :: "grid \<Rightarrow> nat \<Rightarrow> cell \<Rightarrow> nat \<Rightarrow> row" where
  "block_dict df col stator s =
     dict col stator (df ! s ! col) (df ! (s + 1) ! col) (df ! (s + 2) ! col)
       (df ! (s + 3) ! col) (df ! (s + 4) ! col)"

subsection \<open>The layout as the specification words it\<close>

text \<open>
  Row 0 of a column holds the stator pole count; from row 1 on the column is cut into
  consecutive blocks of five rows (rotor poles, modulator count, gear ratio, modulator
  torque, rotor torque); a trailing block of fewer than five rows is dropped; the blocks
  of column 0 come first, then those of column 1, and so on.
\<close>

definition column_of :: "grid \<Rightarrow> nat \<Rightarrow> cell list" where
  "column_of df c = map (\<lambda>r. r ! c) df"

fun blocks5 :: "'a list \<Rightarrow> 'a list list" where
  "blocks5 (x0 # x1 # x2 # x3 # x4 # rest) = [x0, x1, x2, x3, x4] # blocks5 rest"
| "blocks5 _ = []"

definition gear_variant :: "nat \<Rightarrow> cell \<Rightarrow> cell list \<Rightarrow> row" where
  "gear_variant c stator blk = dict c stator (blk ! 0) (blk ! 1) (blk ! 2) (blk ! 3) (blk ! 4)"

definition extract_spec :: "grid \<Rightarrow> row list" where
  "extract_spec df =
     concat (map (\<lambda>c. map (gear_variant c (hd (column_of df c))) (blocks5 (tl (column_of df c))))
       [0..<ncols df])"

text \<open>The number of complete blocks in a column of a frame.\<close>

definition nblocks :: "grid \<Rightarrow> nat" where
  "nblocks df = (length df - 1) div 5"

text \<open>
  The records of column \<open>c\<close> in the order of the loop: block \<open>b\<close> starts at row
  \<open>1 + 5 * b\<close>.
\<close>

definition column_records :: "grid \<Rightarrow> nat \<Rightarrow> row list" where
  "column_records df c = map (\<lambda>b. block_dict df c (df ! 0 ! c) (1 + 5 * b)) [0..<nblocks df]"

section \<open>The range filters (lines 197-222, 239-266, 282-309, 325-373, 389-437, 453-503)\<close>

text \<open>
  \<^verbatim>\<open>df_all = pd.DataFrame(results)\<close> (line 194). A frame is its list of column names and
  its rows. Built from a list of dictionaries it has their keys as columns; built from the
  empty list it has no column at all, and \<^verbatim>\<open>df_all[name]\<close> raises KeyError.
\<close>

record frame =
  columns :: "colname list"
  rows :: "row list"

definition DataFrame :: "row list \<Rightarrow> frame" where
  "DataFrame dicts =
     \<lparr>columns = (if dicts = [] then []
                 else [Spalte, Polzahl_Stator, Polzahl_Rotor, Modulatorzahl,
                       Uebersetzung, Drehmoment_Modulator, Drehmoment_Rotor]),
      rows = dicts\<rparr>"

definition getitem :: "frame \<Rightarrow> colname \<Rightarrow> error + cell list" where
  "getitem fr k =
     (if k \<in> set (columns fr) then Inr (map (\<lambda>r. r k) (rows fr)) else Inl KeyError)"

text \<open>
  Comparing a cell with a number: a comparison with NaN is false, and comparing a string
  with a number raises TypeError.
\<close>

fun ge_cell :: "cell \<Rightarrow> real \<Rightarrow> error + bool" where
  "ge_cell (Num v) x = Inr (x \<le> v)"
| "ge_cell NaN x = Inr False"
| "ge_cell (Text s) x = Inl TypeError"

fun le_cell :: "cell \<Rightarrow> real \<Rightarrow> error + bool" where
  "le_cell (Num v) x = Inr (v \<le> x)"
| "le_cell NaN x = Inr False"
| "le_cell (Text s) x = Inl TypeError"

fun compare_series :: "(cell \<Rightarrow> real \<Rightarrow> error + bool) \<Rightarrow> cell list \<Rightarrow> real \<Rightarrow> error + bool list" where
  "compare_series cmp [] x = Inr []"
| "compare_series cmp (c # cs) x =
     (case cmp c x of Inl e \<Rightarrow> Inl e | Inr b \<Rightarrow>
     (case compare_series cmp cs x of Inl e \<Rightarrow> Inl e | Inr bs \<Rightarrow> Inr (b # bs)))"

text \<open>\<^verbatim>\<open>df_all[k] >= x\<close> and \<^verbatim>\<open>df_all[k] <= x\<close>.\<close>

definition ge_mask :: "frame \<Rightarrow> colname \<Rightarrow> real \<Rightarrow> error + bool list" where
  "ge_mask fr k x =
     (case getitem fr k of Inl e \<Rightarrow> Inl e | Inr series \<Rightarrow> compare_series ge_cell series x)"

definition le_mask :: "frame \<Rightarrow> colname \<Rightarrow> real \<Rightarrow> error + bool list" where
  "le_mask fr k x =
     (case getitem fr k of Inl e \<Rightarrow> Inl e | Inr series \<Rightarrow> compare_series le_cell series x)"

text \<open>\<^verbatim>\<open>m1 & m2\<close> on two masks, and \<^verbatim>\<open>df_all[mask]\<close>: the rows whose mask entry is true.\<close>

definition and_mask :: "bool list \<Rightarrow> bool list \<Rightarrow> bool list" where
  "and_mask m1 m2 = map2 (\<and>) m1 m2"

definition select_rows :: "frame \<Rightarrow> bool list \<Rightarrow> frame" where
  "select_rows fr msk = fr\<lparr>rows := map fst (filter snd (zip (rows fr) msk))\<rparr>"

text \<open>
  The six filters of the source are the same expression on one column, or on two, with
  the comparisons evaluated from left to right:
  \<^verbatim>\<open>df_all[(df_all[a] >= lo) & (df_all[a] <= hi)]\<close> and
  \<^verbatim>\<open>df_all[(df_all[a] >= lo1) & (df_all[a] <= hi1) & (df_all[b] >= lo2) & (df_all[b] <= hi2)]\<close>.
\<close>

definition mask_filter1 :: "frame \<Rightarrow> colname \<Rightarrow> real \<Rightarrow> real \<Rightarrow> error + frame" where
  "mask_filter1 fr a lo hi =
     (case ge_mask fr a lo of Inl e \<Rightarrow> Inl e | Inr m1 \<Rightarrow>
     (case le_mask fr a hi of Inl e \<Rightarrow> Inl e | Inr m2 \<Rightarrow>
        Inr (select_rows fr (and_mask m1 m2))))"

definition mask_filter2 ::
  "frame \<Rightarrow> colname \<Rightarrow> real \<Rightarrow> real \<Rightarrow> colname \<Rightarrow> real \<Rightarrow> real \<Rightarrow> error + frame" where
  "mask_filter2 fr a lo1 hi1 b lo2 hi2 =
     (case ge_mask fr a lo1 of Inl e \<Rightarrow> Inl e | Inr m1 \<Rightarrow>
     (case le_mask fr a hi1 of Inl e \<Rightarrow> Inl e | Inr m2 \<Rightarrow>
     (case ge_mask fr b lo2 of Inl e \<Rightarrow> Inl e | Inr m3 \<Rightarrow>
     (case le_mask fr b hi2 of Inl e \<Rightarrow> Inl e | Inr m4 \<Rightarrow>
        Inr (select_rows fr (and_mask (and_mask (and_mask m1 m2) m3) m4))))))"

text \<open>
  Double precision. \<^verbatim>\<open>x - y\<close> and \<^verbatim>\<open>x + y\<close> on floats are the exact difference and sum
  rounded to the nearest double, ties to the even significand: with \<open>e\<close> the binary
  exponent of the exact result, the nearest multiple of \<open>2 ^ (e - 52)\<close>. (Results beyond
  the largest double or below the smallest normal one are outside this model.)
\<close>

definition fl :: "real \<Rightarrow> real" where
  "fl x =
     (if x = 0 then 0
      else let q = 2 powr real_of_int (\<lfloor>log 2 \<bar>x\<bar>\<rfloor> - 52)
           in real_of_int (py_round (x / q)) * q)"

text \<open>
  \<^verbatim>\<open>st.number_input(label, min_value=..., value=..., step=0.1, ...)\<close>: the widget starts
  with \<open>value\<close> and delivers what the user entered; an entry below \<open>min_value\<close> is refused
  and the widget keeps its value. No entry is \<open>None\<close>.
\<close>

definition number_input :: "real \<Rightarrow> real \<Rightarrow> real option \<Rightarrow> real" where
  "number_input min_value value entered =
     (case entered of None \<Rightarrow> value
      | Some v \<Rightarrow> if v < min_value then value else v)"

text \<open>
  Lines 201-222. \<open>selected_ratio\<close> is the ratio chosen in the select box; the tolerance
  comes from the number input of lines 206-213.
\<close>

definition gear_ratio_filtered :: "frame \<Rightarrow> real \<Rightarrow> real option \<Rightarrow> error + frame" where
  "gear_ratio_filtered df_all selected_ratio entered_tolerance =
     (let tolerance_Uebersetzung = number_input 0 1 entered_tolerance;
          min_gear_ratio = fl (selected_ratio - tolerance_Uebersetzung);
          max_gear_ratio = fl (selected_ratio + tolerance_Uebersetzung)
      in mask_filter1 df_all Uebersetzung min_gear_ratio max_gear_ratio)"

text \<open>Lines 242-266.\<close>

definition torque_filtered :: "frame \<Rightarrow> real option \<Rightarrow> real option \<Rightarrow> error + frame" where
  "torque_filtered df_all entered_target entered_tolerance =
     (let target_torque_Rotor = number_input 0 2 entered_target;
          tolerance_Rotor = number_input 0 1 entered_tolerance;
          min_torque_Rotor = fl (target_torque_Rotor - tolerance_Rotor);
          max_torque_Rotor = fl (target_torque_Rotor + tolerance_Rotor)
      in mask_filter1 df_all Drehmoment_Rotor min_torque_Rotor max_torque_Rotor)"

text \<open>Lines 285-309.\<close>

definition torque_filtered_MOD :: "frame \<Rightarrow> real option \<Rightarrow> real option \<Rightarrow> error + frame" where
  "torque_filtered_MOD df_all entered_target entered_tolerance =
     (let target_torque_MOD = number_input 0 2 entered_target;
          tolerance_MOD = number_input 0 1 entered_tolerance;
          min_torque_MOD = fl (target_torque_MOD - tolerance_MOD);
          max_torque_MOD = fl (target_torque_MOD + tolerance_MOD)
      in mask_filter1 df_all Drehmoment_Modulator min_torque_MOD max_torque_MOD)"

text \<open>
  The three \<^verbatim>\<open>combo_filtered\<close> of the combined tabs (lines 328-373, 392-437, 456-503),
  told apart by the tab they belong to. The tolerance of the rotor torque in the first of
  them starts at 2.0 (line 356), every other tolerance at 1.0, every torque target at 2.0.
\<close>

definition combo_filtered_i_TRot ::
  "frame \<Rightarrow> real \<Rightarrow> real option \<Rightarrow> real option \<Rightarrow> real option \<Rightarrow> error + frame" where
  "combo_filtered_i_TRot df_all combo_ratio_TRot entered_tolerance_i entered_target entered_tolerance_T =
     (let combo_tolerance_i = number_input 0 1 entered_tolerance_i;
          min_t_i_TRotor = fl (combo_ratio_TRot - combo_tolerance_i);
          max_t_i_TRotor = fl (combo_ratio_TRot + combo_tolerance_i);
          combo_target_torque = number_input 0 2 entered_target;
          combo_tolerance_T = number_input 0 2 entered_tolerance_T;
          min_t_T = fl (combo_target_torque - combo_tolerance_T);
          max_t_T = fl (combo_target_torque + combo_tolerance_T)
      in mask_filter2 df_all Uebersetzung min_t_i_TRotor max_t_i_TRotor
           Drehmoment_Rotor min_t_T max_t_T)"

definition combo_filtered_i_TMOD ::
  "frame \<Rightarrow> real \<Rightarrow> real option \<Rightarrow> real option \<Rightarrow> real option \<Rightarrow> error + frame" where
  "combo_filtered_i_TMOD df_all combo_ratio_TMOD entered_tolerance_i entered_target entered_tolerance =
     (let combo_tolerance_i = number_input 0 1 entered_tolerance_i;
          min_t_i_TMOD = fl (combo_ratio_TMOD - combo_tolerance_i);
          max_t_i_TMOD = fl (combo_ratio_TMOD + combo_tolerance_i);
          combo_target_torque = number_input 0 2 entered_target;
          combo_tolerance = number_input 0 1 entered_tolerance;
          min_t_T = fl (combo_target_torque - combo_tolerance);
          max_t_T = fl (combo_target_torque + combo_tolerance)
      in mask_filter2 df_all Uebersetzung min_t_i_TMOD max_t_i_TMOD
           Drehmoment_Modulator min_t_T max_t_T)"

definition combo_filtered_TRot_TMOD ::
  "frame \<Rightarrow> real option \<Rightarrow> real option \<Rightarrow> real option \<Rightarrow> real option \<Rightarrow> error + frame" where
  "combo_filtered_TRot_TMOD df_all entered_target_MOD entered_tolerance_MOD
       entered_target_Rotor entered_tolerance_Rotor =
     (let combo_target_torque_MOD = number_input 0 2 entered_target_MOD;
          combo_tolerance_MOD = number_input 0 1 entered_tolerance_MOD;
          min_t_MOD = fl (combo_target_torque_MOD - combo_tolerance_MOD);
          max_t_MOD = fl (combo_target_torque_MOD + combo_tolerance_MOD);
          combo_target_torque_Rotor = number_input 0 2 entered_target_Rotor;
          combo_tolerance_Rotor = number_input 0 1 entered_tolerance_Rotor;
          min_t_Rotor = fl (combo_target_torque_Rotor - combo_tolerance_Rotor);
          max_t_Rotor = fl (combo_target_torque_Rotor + combo_tolerance_Rotor)
      in mask_filter2 df_all Drehmoment_Modulator min_t_MOD max_t_MOD
           Drehmoment_Rotor min_t_Rotor max_t_Rotor)"

subsection \<open>The filter as the specification words it\<close>

text \<open>
  A record passes a triple \<open>(field, target, tolerance)\<close> when its field is a number with
  \<open>target - tolerance \<le> field \<le> target + tolerance\<close>; it passes a list of triples when
  it passes every one; the filter keeps the passing records in their order.
\<close>

fun in_range :: "cell \<Rightarrow> real \<Rightarrow> real \<Rightarrow> bool" where
  "in_range (Num v) target tolerance = (target - tolerance \<le> v \<and> v \<le> target + tolerance)"
| "in_range NaN target tolerance = False"
| "in_range (Text s) target tolerance = False"

definition filterByRange :: "row list \<Rightarrow> (colname \<times> real \<times> real) list \<Rightarrow> row list" where
  "filterByRange records triples =
     filter (\<lambda>r. list_all (\<lambda>(field, target, tolerance). in_range (r field) target tolerance) triples)
       records"

text \<open>
  The same with the two bounds given: a record passes \<open>(field, lo, hi)\<close> when its field
  is a number with \<open>lo \<le> field \<le> hi\<close>.
\<close>

fun between :: "cell \<Rightarrow> real \<Rightarrow> real \<Rightarrow> bool" where
  "between (Num v) lo hi = (lo \<le> v \<and> v \<le> hi)"
| "between NaN lo hi = False"
| "between (Text s) lo hi = False"

definition filterBetween :: "row list \<Rightarrow> (colname \<times> real \<times> real) list \<Rightarrow> row list" where
  "filterBetween records bounds =
     filter (\<lambda>r. list_all (\<lambda>(field, lo, hi). between (r field) lo hi) bounds) records"

text \<open>The truth value of a comparison that does not raise.\<close>

fun ge_value :: "cell \<Rightarrow> real \<Rightarrow> bool" where
  "ge_value (Num v) x = (x \<le> v)"
| "ge_value NaN x = False"
| "ge_value (Text s) x = False"

fun le_value :: "cell \<Rightarrow> real \<Rightarrow> bool" where
  "le_value (Num v) x = (v \<le> x)"
| "le_value NaN x = False"
| "le_value (Text s) x = False"

text \<open>A cell that holds a float: a number or NaN, not a text.\<close>

fun is_float :: "cell \<Rightarrow> bool" where
  "is_float (Num v) = True"
| "is_float NaN = True"
| "is_float (Text s) = False"

definition float_columns :: "frame \<Rightarrow> bool" where
  "float_columns fr =
     (list_all (\<lambda>k. k \<in> set (columns fr)) [Uebersetzung, Drehmoment_Modulator, Drehmoment_Rotor] \<and>
      list_all (\<lambda>r. is_float (r Uebersetzung) \<and> is_float (r Drehmoment_Modulator) \<and>
                     is_float (r Drehmoment_Rotor)) (rows fr))"

section \<open>Properties of the quality factor\<close>

lemma dict_simps:
  "dict col stator rotor mod_v ratio torque_mod torque_rot Spalte = Num (real col)"
  "dict col stator rotor mod_v ratio torque_mod torque_rot Polzahl_Stator = stator"
  "dict col stator rotor mod_v ratio torque_mod torque_rot Polzahl_Rotor = rotor"
  "dict col stator rotor mod_v ratio torque_mod torque_rot Modulatorzahl = mod_v"
  "dict col stator rotor mod_v ratio torque_mod torque_rot Uebersetzung = ratio"
  "dict col stator rotor mod_v ratio torque_mod torque_rot Drehmoment_Modulator = torque_mod"
  "dict col stator rotor mod_v ratio torque_mod torque_rot Drehmoment_Rotor = torque_rot"
  by (simp_all add: dict_def)

lemma py_round_of_int: "py_round (real_of_int n) = n"
  by (simp add: py_round_def)

lemma py_round_nearest: "\<bar>x - real_of_int (py_round x)\<bar> \<le> 1 / 2"
proof -
  have "real_of_int \<lfloor>x\<rfloor> \<le> x" and "x < real_of_int \<lfloor>x\<rfloor> + 1"
    by linarith+
  then show ?thesis
    by (auto simp: py_round_def Let_def abs_le_iff)
qed

lemma quality_int:
  fixes m r :: int
  shows "(case floordiv (m * r) (gcd m r) of Inl e \<Rightarrow> Inl e | Inr kgv \<Rightarrow> truediv (m * r) kgv) =
    (if m = 0 \<or> r = 0 then Inl ZeroDivisionError else Inr (real_of_int (gcd m r)))"
proof (cases "m = 0 \<or> r = 0")
  case True
  then show ?thesis
    by (auto simp: floordiv_def truediv_def)
next
  case False
  then have g: "gcd m r \<noteq> 0" by simp
  have "gcd m r dvd m * r" by simp
  then have eq: "m * r = gcd m r * ((m * r) div gcd m r)" by simp
  have nz: "(m * r) div gcd m r \<noteq> 0"
  proof
    assume "(m * r) div gcd m r = 0"
    with eq have "m * r = 0" by simp
    with False show False by simp
  qed
  have "real_of_int (m * r) = real_of_int (gcd m r) * real_of_int ((m * r) div gcd m r)"
    using eq by (metis of_int_mult)
  then have "real_of_int (m * r) / real_of_int ((m * r) div gcd m r) = real_of_int (gcd m r)"
    using nz by (simp add: field_simps)
  with False g nz show ?thesis
    by (simp add: floordiv_def truediv_def)
qed

lemma quality_of_numbers:
  "row Modulatorzahl = Num y \<Longrightarrow> row Polzahl_Rotor = Num x \<Longrightarrow>
   berechne_qualitaet row =
     (if py_round y = 0 \<or> py_round x = 0 then Inl ZeroDivisionError
      else Inr (real_of_int (gcd (py_round y) (py_round x))))"
  by (simp add: berechne_qualitaet_def quality_int)

lemma product_over_lcm:
  fixes r m :: int
  assumes "0 < r" "0 < m"
  shows "real_of_int (r * m) / real_of_int (lcm r m) = real_of_int (gcd r m)"
proof -
  have "gcd r m * lcm r m = r * m"
    using assms by (simp add: gcd_mult_lcm abs_mult)
  then have "real_of_int (r * m) = real_of_int (gcd r m) * real_of_int (lcm r m)"
    by (metis of_int_mult)
  moreover have "lcm r m \<noteq> 0" using assms by simp
  ultimately show ?thesis by simp
qed

text \<open>
  Claim C1. For positive integers \<open>rotorPoles\<close> and \<open>modulatorCount\<close> held by the two
  cells of a row, \<^verbatim>\<open>berechne_qualitaet\<close> returns
  \<open>(rotorPoles * modulatorCount) / lcm rotorPoles modulatorCount\<close>, which is
  \<open>gcd rotorPoles modulatorCount\<close>. At 4 and 6 the value is 2 (the witness).
\<close>
theorem quality_is_product_over_lcm:
  fixes rotorPoles modulatorCount :: int
  assumes "0 < rotorPoles" and "0 < modulatorCount"
    and "row Polzahl_Rotor = Num (real_of_int rotorPoles)"
    and "row Modulatorzahl = Num (real_of_int modulatorCount)"
  shows "berechne_qualitaet row =
           Inr (real_of_int (rotorPoles * modulatorCount) / real_of_int (lcm rotorPoles modulatorCount))
       \<and> berechne_qualitaet row = Inr (real_of_int (gcd rotorPoles modulatorCount))"
  using assms
  by (simp add: quality_of_numbers py_round_of_int product_over_lcm gcd.commute del: of_int_mult)

theorem quality_is_product_over_lcm_witness:
  "berechne_qualitaet (dict 0 (Num 10) (Num 4) (Num 6) (Num (3 / 2)) (Num 3) (Num 2)) = Inr 2"
  using quality_is_product_over_lcm [of 4 6 "dict 0 (Num 10) (Num 4) (Num 6) (Num (3 / 2)) (Num 3) (Num 2)",
      THEN conjunct2]
  by (simp add: dict_simps gcd_code_int)

text \<open>
  Claim C5. When the rotor pole count or the modulator count is 0 after rounding, the
  quality factor is not computed: the function raises (ZeroDivisionError is the
  condition Python raises for the undefined division) and returns no number.
  With one zero the least common multiple is 0 and \<^verbatim>\<open>/\<close> raises; with two zeros the
  greatest common divisor is 0 and \<^verbatim>\<open>//\<close> raises.
\<close>
theorem quality_zero_fails:
  assumes "row Polzahl_Rotor = Num x" and "row Modulatorzahl = Num y"
    and "py_round x = 0 \<or> py_round y = 0"
  shows "berechne_qualitaet row = Inl ZeroDivisionError \<and> (\<forall>q. berechne_qualitaet row \<noteq> Inr q)"
  using assms by (auto simp: quality_of_numbers)

theorem quality_zero_fails_witness:
  "berechne_qualitaet (dict 0 (Num 10) (Num 0) (Num 5) (Num (3 / 2)) (Num 3) (Num 2)) = Inl ZeroDivisionError"
  using quality_zero_fails [of "dict 0 (Num 10) (Num 0) (Num 5) (Num (3 / 2)) (Num 3) (Num 2)" 0 5]
  by (simp add: dict_simps py_round_def)

text \<open>
  Claim C8. For positive integers \<open>rotorPoles\<close> and \<open>modulatorCount\<close> the returned
  quality is the float of an integer \<open>q\<close> with \<open>1 \<le> q \<le> min rotorPoles modulatorCount\<close>;
  a value strictly between two integers does not occur.
\<close>
theorem quality_integer_in_range:
  fixes rotorPoles modulatorCount :: int
  assumes "0 < rotorPoles" and "0 < modulatorCount"
    and "row Polzahl_Rotor = Num (real_of_int rotorPoles)"
    and "row Modulatorzahl = Num (real_of_int modulatorCount)"
  shows "\<exists>q::int. berechne_qualitaet row = Inr (real_of_int q) \<and> 1 \<le> q \<and> q \<le> min rotorPoles modulatorCount"
proof -
  let ?g = "gcd modulatorCount rotorPoles"
  have "berechne_qualitaet row = Inr (real_of_int ?g)"
    using assms by (simp add: quality_of_numbers py_round_of_int)
  moreover have "0 < ?g" using assms by simp
  then have "1 \<le> ?g" by linarith
  moreover have "?g \<le> modulatorCount" using assms by (simp add: gcd_le1_int)
  moreover have "?g \<le> rotorPoles" using assms by (simp add: gcd_le2_int)
  then have "?g \<le> min rotorPoles modulatorCount"
    using \<open>?g \<le> modulatorCount\<close> by simp
  ultimately show ?thesis by blast
qed

theorem quality_integer_in_range_witness:
  "\<exists>q::int. berechne_qualitaet (dict 0 (Num 10) (Num 4) (Num 8) (Num (3 / 2)) (Num 3) (Num 2)) = Inr (real_of_int q)
     \<and> 1 \<le> q \<and> q \<le> 4"
  using quality_integer_in_range [of 4 8 "dict 0 (Num 10) (Num 4) (Num 8) (Num (3 / 2)) (Num 3) (Num 2)"]
  by (simp add: dict_simps)

text \<open>
  Claim C9. For positive integers \<open>a\<close> and \<open>b\<close> the quality of \<open>(a, b)\<close> equals the
  quality of \<open>(b, a)\<close>, and the quality of \<open>(a, a)\<close> is \<open>a\<close>.
\<close>
theorem quality_symmetric:
  fixes a b :: int
  assumes "0 < a" and "0 < b"
    and "row1 Polzahl_Rotor = Num (real_of_int a)" and "row1 Modulatorzahl = Num (real_of_int b)"
    and "row2 Polzahl_Rotor = Num (real_of_int b)" and "row2 Modulatorzahl = Num (real_of_int a)"
    and "row3 Polzahl_Rotor = Num (real_of_int a)" and "row3 Modulatorzahl = Num (real_of_int a)"
  shows "berechne_qualitaet row1 = berechne_qualitaet row2
       \<and> berechne_qualitaet row3 = Inr (real_of_int a)"
  using assms by (simp add: quality_of_numbers py_round_of_int gcd.commute)

theorem quality_symmetric_witness:
  "berechne_qualitaet (dict 0 (Num 10) (Num 4) (Num 6) (Num (3 / 2)) (Num 3) (Num 2)) =
   berechne_qualitaet (dict 0 (Num 10) (Num 6) (Num 4) (Num (3 / 2)) (Num 3) (Num 2))
   \<and> berechne_qualitaet (dict 0 (Num 10) (Num 6) (Num 6) (Num (3 / 2)) (Num 3) (Num 2)) = Inr 6"
  using quality_symmetric [of 6 4 "dict 0 (Num 10) (Num 6) (Num 4) (Num (3 / 2)) (Num 3) (Num 2)"
      "dict 0 (Num 10) (Num 4) (Num 6) (Num (3 / 2)) (Num 3) (Num 2)"
      "dict 0 (Num 10) (Num 6) (Num 6) (Num (3 / 2)) (Num 3) (Num 2)"]
  by (simp add: dict_simps)

text \<open>
  Claim C10. The function rounds both inputs before it computes: for real cells \<open>x\<close> and
  \<open>y\<close> whose rounded values are positive, the quality of \<open>(x, y)\<close> is the quality of
  \<open>(round x, round y)\<close>, namely their greatest common divisor; the rounded value is a
  nearest integer (at most one half away). Non-integer cells are accepted.
\<close>
theorem quality_rounds_inputs:
  assumes "row Polzahl_Rotor = Num x" and "row Modulatorzahl = Num y"
    and "row' Polzahl_Rotor = Num (real_of_int (py_round x))"
    and "row' Modulatorzahl = Num (real_of_int (py_round y))"
    and "0 < py_round x" and "0 < py_round y"
  shows "berechne_qualitaet row = berechne_qualitaet row'
       \<and> berechne_qualitaet row = Inr (real_of_int (gcd (py_round x) (py_round y)))
       \<and> \<bar>x - real_of_int (py_round x)\<bar> \<le> 1 / 2 \<and> \<bar>y - real_of_int (py_round y)\<bar> \<le> 1 / 2"
  using assms py_round_nearest [of x] py_round_nearest [of y]
  by (simp add: quality_of_numbers py_round_of_int gcd.commute)

theorem quality_rounds_inputs_witness:
  "berechne_qualitaet (dict 0 (Num 10) (Num (204 / 10)) (Num (17 / 2)) (Num (3 / 2)) (Num 3) (Num 2)) =
   berechne_qualitaet (dict 0 (Num 10) (Num 20) (Num 8) (Num (3 / 2)) (Num 3) (Num 2))
   \<and> berechne_qualitaet (dict 0 (Num 10) (Num (204 / 10)) (Num (17 / 2)) (Num (3 / 2)) (Num 3) (Num 2)) = Inr 4"
  using quality_rounds_inputs [of "dict 0 (Num 10) (Num (204 / 10)) (Num (17 / 2)) (Num (3 / 2)) (Num 3) (Num 2)"
      "204 / 10" "17 / 2" "dict 0 (Num 10) (Num 20) (Num 8) (Num (3 / 2)) (Num 3) (Num 2)"]
  by (auto simp add: dict_simps py_round_def gcd_code_int)


section \<open>Properties of the extraction\<close>

lemma rectangular_nth: "rectangular df \<Longrightarrow> r < length df \<Longrightarrow> length (df ! r) = ncols df"
  by (simp add: rectangular_def list_all_length)

lemma iloc_inside:
  "rectangular df \<Longrightarrow> r < length df \<Longrightarrow> c < ncols df \<Longrightarrow> iloc df r c = Inr (df ! r ! c)"
  by (simp add: iloc_def rectangular_nth)

lemma block_count: "s + 4 < (n::nat) \<Longrightarrow> (n - s) div 5 = Suc ((n - (s + 5)) div 5)"
proof -
  assume "s + 4 < n"
  then have "s + 5 \<le> n" by simp
  then obtain k where "n = s + 5 + k"
    using le_Suc_ex by blast
  then show ?thesis by simp
qed

lemma while_blocks_step:
  "rectangular df \<Longrightarrow> col < ncols df \<Longrightarrow> start_row + 4 < length df \<Longrightarrow>
   while_blocks df col stator start_row acc =
     while_blocks df col stator (start_row + 5) (acc @ [block_dict df col stator start_row])"
  by (subst while_blocks.simps) (simp add: iloc_inside block_dict_def)

lemma while_blocks_stop:
  "\<not> start_row + 4 < length df \<Longrightarrow> while_blocks df col stator start_row acc = Inr acc"
  by (subst while_blocks.simps) simp

lemma while_blocks_eq:
  "rectangular df \<Longrightarrow> col < ncols df \<Longrightarrow>
   while_blocks df col stator start_row acc =
     Inr (acc @ map (\<lambda>i. block_dict df col stator (start_row + 5 * i))
                  [0..<(length df - start_row) div 5])"
proof (induction "length df - start_row" arbitrary: start_row acc rule: less_induct)
  case less
  show ?case
  proof (cases "start_row + 4 < length df")
    case False
    then have "(length df - start_row) div 5 = 0" by simp
    with False show ?thesis
      by (simp add: while_blocks_stop)
  next
    case True
    have "while_blocks df col stator (start_row + 5) (acc @ [block_dict df col stator start_row]) =
      Inr ((acc @ [block_dict df col stator start_row]) @
        map (\<lambda>i. block_dict df col stator (start_row + 5 + 5 * i))
          [0..<(length df - (start_row + 5)) div 5])"
      using True less.prems by (intro less.hyps) simp_all
    then show ?thesis
      using True less.prems
      by (simp add: while_blocks_step block_count map_upt_Suc add.assoc del: upt_Suc)
  qed
qed

lemma for_columns_eq:
  "rectangular df \<Longrightarrow> df \<noteq> [] \<Longrightarrow> \<forall>c\<in>set cols. c < ncols df \<Longrightarrow>
   for_columns df cols acc = Inr (acc @ concat (map (column_records df) cols))"
proof (induction cols arbitrary: acc)
  case Nil
  then show ?case by simp
next
  case (Cons col cols)
  then have "iloc df 0 col = Inr (df ! 0 ! col)"
    by (simp add: iloc_inside)
  moreover have "while_blocks df col (df ! 0 ! col) 1 acc = Inr (acc @ column_records df col)"
    using Cons.prems by (simp add: while_blocks_eq column_records_def nblocks_def)
  moreover have "for_columns df cols (acc @ column_records df col) =
      Inr ((acc @ column_records df col) @ concat (map (column_records df) cols))"
    using Cons.prems by (intro Cons.IH) simp_all
  ultimately show ?case by simp
qed

lemma extract_results_eq:
  "rectangular df \<Longrightarrow> df \<noteq> [] \<Longrightarrow>
   extract_results df = Inr (concat (map (column_records df) [0..<ncols df]))"
  by (simp add: extract_results_def iloc_row_def df_columns_def for_columns_eq)

lemma nth_five: "(x0 # x1 # x2 # x3 # x4 # rest) ! (n + 5) = rest ! n"
  by (simp add: eval_nat_numeral)

lemma blocks5_variants:
  "map (gear_variant c stator) (blocks5 xs) =
   map (\<lambda>i. dict c stator (xs ! (5 * i)) (xs ! (5 * i + 1)) (xs ! (5 * i + 2))
                (xs ! (5 * i + 3)) (xs ! (5 * i + 4)))
     [0..<length xs div 5]"
proof (induction xs rule: blocks5.induct)
  case (1 x0 x1 x2 x3 x4 rest)
  let ?L = "x0 # x1 # x2 # x3 # x4 # rest"
  let ?f = "\<lambda>ys i. dict c stator (ys ! (5 * i)) (ys ! (5 * i + 1)) (ys ! (5 * i + 2))
                (ys ! (5 * i + 3)) (ys ! (5 * i + 4))"
  have shift: "?L ! (5 * Suc i + k) = rest ! (5 * i + k)" for i k
  proof -
    have "5 * Suc i + k = (5 * i + k) + 5" by simp
    then show ?thesis by (simp only: nth_five)
  qed
  have shift0: "?L ! (5 * Suc i) = rest ! (5 * i)" for i
    using shift [of i 0] by simp
  have tail: "?f ?L (Suc i) = ?f rest i" for i
    by (simp only: shift shift0)
  have head: "gear_variant c stator [x0, x1, x2, x3, x4] = ?f ?L 0"
    by (simp add: gear_variant_def)
  have len: "length ?L div 5 = Suc (length rest div 5)"
    by simp
  have "map (gear_variant c stator) (blocks5 ?L) =
      gear_variant c stator [x0, x1, x2, x3, x4] # map (gear_variant c stator) (blocks5 rest)"
    by simp
  also have "\<dots> = ?f ?L 0 # map (?f rest) [0..<length rest div 5]"
    by (simp only: head "1.IH")
  also have "\<dots> = ?f ?L 0 # map (\<lambda>i. ?f ?L (Suc i)) [0..<length rest div 5]"
    by (simp only: tail)
  also have "\<dots> = map (?f ?L) [0..<Suc (length rest div 5)]"
    by (rule map_upt_Suc [symmetric])
  finally show ?case
    by (simp only: len)
qed simp_all


lemma column_records_spec:
  assumes "df \<noteq> []"
  shows "map (gear_variant c (hd (column_of df c))) (blocks5 (tl (column_of df c))) =
         column_records df c"
proof -
  let ?xs = "tl (column_of df c)"
  have len: "length ?xs = length df - 1"
    by (simp add: column_of_def)
  have hd: "hd (column_of df c) = df ! 0 ! c"
    using assms by (simp add: column_of_def hd_map hd_conv_nth)
  have cellj: "?xs ! j = df ! (j + 1) ! c" if "j + 1 < length df" for j
    using that by (simp add: column_of_def nth_tl)
  have "map (\<lambda>i. dict c (df ! 0 ! c) (?xs ! (5 * i)) (?xs ! (5 * i + 1)) (?xs ! (5 * i + 2))
            (?xs ! (5 * i + 3)) (?xs ! (5 * i + 4))) [0..<nblocks df] =
        map (\<lambda>b. block_dict df c (df ! 0 ! c) (1 + 5 * b)) [0..<nblocks df]"
  proof (rule map_cong [OF refl])
    fix i assume "i \<in> set [0..<nblocks df]"
    then have "i < (length df - 1) div 5"
      by (simp add: nblocks_def)
    then have "5 * i + 4 < length df - 1"
      by simp
    then have "5 * i + 5 < length df"
      by simp
    then show "dict c (df ! 0 ! c) (?xs ! (5 * i)) (?xs ! (5 * i + 1)) (?xs ! (5 * i + 2))
            (?xs ! (5 * i + 3)) (?xs ! (5 * i + 4)) = block_dict df c (df ! 0 ! c) (1 + 5 * i)"
      using cellj [of "5 * i"] cellj [of "5 * i + 1"] cellj [of "5 * i + 2"]
        cellj [of "5 * i + 3"] cellj [of "5 * i + 4"]
      by (simp add: block_dict_def add.commute add.left_commute)
  qed
  then show ?thesis
    by (simp only: blocks5_variants len hd column_records_def nblocks_def)
qed

lemma extract_spec_records:
  "df \<noteq> [] \<Longrightarrow> extract_spec df = concat (map (column_records df) [0..<ncols df])"
  by (simp add: extract_spec_def column_records_spec)

lemma length_column_records: "length (column_records df c) = nblocks df"
  by (simp add: column_records_def)

lemma length_concat_columns:
  "length (concat (map (column_records df) [0..<n])) = n * nblocks df"
  by (induction n) (simp_all add: length_column_records)

lemma nth_concat_columns:
  "k < n * nblocks df \<Longrightarrow>
   concat (map (column_records df) [0..<n]) ! k =
     block_dict df (k div nblocks df) (df ! 0 ! (k div nblocks df)) (1 + 5 * (k mod nblocks df))"
proof (induction n)
  case 0
  then show ?case by simp
next
  case (Suc n)
  let ?m = "nblocks df"
  show ?case
  proof (cases "k < n * ?m")
    case True
    then show ?thesis
      using Suc.IH by (simp add: nth_append length_concat_columns)
  next
    case False
    then have lo: "n * ?m \<le> k" by simp
    have hi: "k < n * ?m + ?m" using Suc.prems by simp
    then have pos: "0 < ?m" by (cases "?m") simp_all
    obtain j where k: "k = n * ?m + j"
      using lo le_Suc_ex by blast
    with hi have j: "j < ?m" by simp
    have d: "k div ?m = n" using k j pos by simp
    have r: "k mod ?m = j" using k j by simp
    have "concat (map (column_records df) [0..<Suc n]) ! k = column_records df n ! j"
      using k by (simp add: nth_append length_concat_columns)
    also have "\<dots> = block_dict df n (df ! 0 ! n) (1 + 5 * j)"
      using j by (simp add: column_records_def)
    finally show ?thesis
      by (simp only: d r)
  qed
qed


text \<open>
  Claim C2 speaks of every rectangular grid. The grid without rows is rectangular, and on
  it line 168 raises IndexError before any column is visited: no record list, not even the
  empty one, is produced.
\<close>

theorem extraction_empty_grid_counterexample:
  "rectangular [] \<and> extract_results [] = Inl IndexError"
  by (simp add: rectangular_def extract_results_def iloc_row_def)

text \<open>
  Claim C2, for grids with at least one row. For every rectangular grid with a row 0 the
  extraction returns the records of the layout: row 0 of a column is its stator pole
  count, the column from row 1 on is cut into consecutive blocks of five rows (rotor poles,
  modulator count, gear ratio, modulator torque, rotor torque in this order), one record
  per complete block, a trailing partial block dropped, column after column. The witness
  is the grid of one column and six rows, which yields exactly one record, and the same
  grid with a seventh row, which yields the same record.
\<close>

theorem extraction_follows_layout:
  assumes "rectangular df" and "df \<noteq> []"
  shows "extract_results df = Inr (extract_spec df)"
  using assms by (simp add: extract_results_eq extract_spec_records)

theorem extraction_follows_layout_witness:
  "extract_results [[Num 10], [Num 20], [Num 8], [Num (3 / 2)], [Num 3], [Num 2]] =
     Inr [dict 0 (Num 10) (Num 20) (Num 8) (Num (3 / 2)) (Num 3) (Num 2)]
   \<and> extract_results [[Num 10], [Num 20], [Num 8], [Num (3 / 2)], [Num 3], [Num 2], [Num 7]] =
     Inr [dict 0 (Num 10) (Num 20) (Num 8) (Num (3 / 2)) (Num 3) (Num 2)]"
  using extraction_follows_layout [of "[[Num 10], [Num 20], [Num 8], [Num (3 / 2)], [Num 3], [Num 2]]"]
    extraction_follows_layout [of "[[Num 10], [Num 20], [Num 8], [Num (3 / 2)], [Num 3], [Num 2], [Num 7]]"]
  by (simp add: rectangular_def ncols_def extract_spec_def column_of_def gear_variant_def)

text \<open>
  Claim C3 says that a block with a blank or a text cell yields no record. The loop never
  looks at what a cell holds: the block below, with a blank modulator count and a text as
  gear ratio, yields its record like any other.
\<close>

theorem malformed_block_counterexample:
  "extract_results [[Num 10], [Num 20], [NaN], [Text ''abc''], [Num 3], [Num 2]] =
     Inr [dict 0 (Num 10) (Num 20) NaN (Text ''abc'') (Num 3) (Num 2)]"
  by (simp add: extract_results_def iloc_row_def df_columns_def ncols_def iloc_def
      while_blocks.simps)

text \<open>
  Claim C3, as the code has it. For every rectangular grid with at least one row, whatever
  its cells hold (numbers, blanks, texts), the extraction does not abort; it produces one
  record for every complete block of every column, a malformed block included, and the
  record of block \<open>b\<close> of column \<open>c\<close> is made of the stator cell of that column and the
  five cells of that block as they stand, so that no other block or column affects it.
\<close>

theorem malformed_blocks_kept:
  assumes "rectangular df" and "df \<noteq> []"
  shows "\<exists>rs. extract_results df = Inr rs \<and> length rs = ncols df * nblocks df \<and>
    (\<forall>c<ncols df. \<forall>b<nblocks df.
       rs ! (c * nblocks df + b) = block_dict df c (df ! 0 ! c) (1 + 5 * b))"
proof -
  let ?rs = "concat (map (column_records df) [0..<ncols df])"
  let ?m = "nblocks df"
  have "?rs ! (c * ?m + b) = block_dict df c (df ! 0 ! c) (1 + 5 * b)"
    if c: "c < ncols df" and b: "b < ?m" for c b
  proof -
    have "Suc c * ?m \<le> ncols df * ?m"
      using c by (intro mult_le_mono1) simp
    then have "c * ?m + b < ncols df * ?m"
      using b by simp
    then have "?rs ! (c * ?m + b) =
        block_dict df ((c * ?m + b) div ?m) (df ! 0 ! ((c * ?m + b) div ?m))
          (1 + 5 * ((c * ?m + b) mod ?m))"
      by (rule nth_concat_columns)
    moreover have "(c * ?m + b) div ?m = c" and "(c * ?m + b) mod ?m = b"
      using b by simp_all
    ultimately show ?thesis by simp
  qed
  then show ?thesis
    using assms by (simp add: extract_results_eq length_concat_columns)
qed

theorem malformed_blocks_kept_witness:
  "\<exists>rs. extract_results
      [[Num 10, Num 12], [Num 20, Num 22], [NaN, Num 8], [Text ''abc'', Num 2],
       [Num 3, Num 3], [Num 2, Num 2]] = Inr rs \<and> length rs = 2"
  using malformed_blocks_kept
    [of "[[Num 10, Num 12], [Num 20, Num 22], [NaN, Num 8], [Text ''abc'', Num 2],
          [Num 3, Num 3], [Num 2, Num 2]]"]
  by (auto simp add: rectangular_def ncols_def nblocks_def)

text \<open>
  Claim C4 says that the rotor pole count and the modulator count are rounded before
  they are stored. The cells 20.4 and 8.5 are stored as 20.4 and 8.5.
\<close>

theorem stored_rounded_counterexample:
  "extract_results [[Num 10], [Num (204 / 10)], [Num (17 / 2)], [Num (3 / 2)], [Num 3], [Num 2]] =
     Inr [dict 0 (Num 10) (Num (204 / 10)) (Num (17 / 2)) (Num (3 / 2)) (Num 3) (Num 2)]
   \<and> dict 0 (Num 10) (Num (204 / 10)) (Num (17 / 2)) (Num (3 / 2)) (Num 3) (Num 2) Polzahl_Rotor
       \<noteq> Num (real_of_int (py_round (204 / 10)))
   \<and> dict 0 (Num 10) (Num (204 / 10)) (Num (17 / 2)) (Num (3 / 2)) (Num 3) (Num 2) Modulatorzahl
       \<noteq> Num (real_of_int (py_round (17 / 2)))"
  by (simp add: extract_results_def iloc_row_def df_columns_def ncols_def iloc_def
      while_blocks.simps dict_simps py_round_def)

text \<open>
  Claim C4, as the code has it. Every extracted record of a rectangular grid with at
  least one row holds the stator cell of its column and the five cells of its block
  unchanged: rotor pole count and modulator count are stored unrounded, like gear ratio,
  modulator torque and rotor torque. (Rounding happens in \<^verbatim>\<open>berechne_qualitaet\<close> only.)
\<close>

theorem records_hold_raw_cells:
  assumes "rectangular df" and "df \<noteq> []" and "extract_results df = Inr rs" and "k < length rs"
  shows "(rs ! k) Polzahl_Stator = df ! 0 ! (k div nblocks df)
    \<and> (rs ! k) Polzahl_Rotor = df ! (1 + 5 * (k mod nblocks df)) ! (k div nblocks df)
    \<and> (rs ! k) Modulatorzahl = df ! (2 + 5 * (k mod nblocks df)) ! (k div nblocks df)
    \<and> (rs ! k) Uebersetzung = df ! (3 + 5 * (k mod nblocks df)) ! (k div nblocks df)
    \<and> (rs ! k) Drehmoment_Modulator = df ! (4 + 5 * (k mod nblocks df)) ! (k div nblocks df)
    \<and> (rs ! k) Drehmoment_Rotor = df ! (5 + 5 * (k mod nblocks df)) ! (k div nblocks df)"
proof -
  have rs: "rs = concat (map (column_records df) [0..<ncols df])"
    using assms by (simp add: extract_results_eq)
  then have "k < ncols df * nblocks df"
    using assms(4) by (simp add: length_concat_columns)
  then have "rs ! k =
      block_dict df (k div nblocks df) (df ! 0 ! (k div nblocks df)) (1 + 5 * (k mod nblocks df))"
    unfolding rs by (rule nth_concat_columns)
  moreover have "1 + 5 * j + 1 = 2 + 5 * j" "1 + 5 * j + 2 = 3 + 5 * j"
    "1 + 5 * j + 3 = 4 + 5 * j" "1 + 5 * j + 4 = 5 + 5 * j" for j :: nat
    by simp_all
  ultimately show ?thesis
    by (simp only: block_dict_def dict_simps simp_thms)
qed

theorem records_hold_raw_cells_witness:
  "([dict 0 (Num 10) (Num (204 / 10)) (Num (17 / 2)) (Num (3 / 2)) (Num 3) (Num 2)] ! 0) Polzahl_Rotor
     = Num (204 / 10)
   \<and> ([dict 0 (Num 10) (Num (204 / 10)) (Num (17 / 2)) (Num (3 / 2)) (Num 3) (Num 2)] ! 0) Modulatorzahl
     = Num (17 / 2)"
  using records_hold_raw_cells
    [of "[[Num 10], [Num (204 / 10)], [Num (17 / 2)], [Num (3 / 2)], [Num 3], [Num 2]]"
        "[dict 0 (Num 10) (Num (204 / 10)) (Num (17 / 2)) (Num (3 / 2)) (Num 3) (Num 2)]" 0]
  by (simp add: rectangular_def ncols_def nblocks_def extract_results_def iloc_row_def
      df_columns_def iloc_def while_blocks.simps)


section \<open>Properties of the range filters\<close>

lemma floor_log2:
  assumes "2 powr real_of_int e \<le> a" and "a < 2 powr real_of_int (e + 1)"
  shows "\<lfloor>log 2 a\<rfloor> = e"
proof -
  have "0 < 2 powr real_of_int e" by simp
  then have pos: "0 < a"
    using assms(1) by linarith
  have lo: "real_of_int e \<le> log 2 a"
    using assms(1) pos by (simp add: le_log_iff)
  have hi: "log 2 a < real_of_int e + 1"
    using assms(2) pos by (simp add: log_less_iff add.commute)
  show ?thesis
    using lo hi by (simp add: floor_eq_iff)
qed

lemma fl_eval:
  assumes "2 powr real_of_int e \<le> \<bar>x\<bar>" and "\<bar>x\<bar> < 2 powr real_of_int (e + 1)"
  shows "fl x = real_of_int (py_round (x / 2 powr real_of_int (e - 52))) * 2 powr real_of_int (e - 52)"
proof -
  have "0 < 2 powr real_of_int e" by simp
  then have "x \<noteq> 0"
    using assms(1) by auto
  then show ?thesis
    by (simp add: fl_def Let_def floor_log2 [OF assms])
qed

lemma fl_values:
  "fl 1 = 1" "fl (3 / 2) = 3 / 2" "fl 2 = 2" "fl (5 / 2) = 5 / 2" "fl 3 = 3"
  by (simp_all add: fl_eval [of 0] fl_eval [of 1] py_round_def powr_minus)

text \<open>
  In doubles \<^verbatim>\<open>0.1 + 1.0 == 1.1\<close>, though the exact sum of the two doubles lies below the
  double 1.1: an upper bound computed by the program admits a torque of 1.1 that the
  exact sum would not.
\<close>

lemma double_sum_example:
  "fl (3602879701896397 / 36028797018963968 + 1) = 2476979795053773 / 2251799813685248
   \<and> (3602879701896397 / 36028797018963968 + 1 :: real) < 2476979795053773 / 2251799813685248"
  by (simp add: fl_eval [of 0] py_round_def powr_minus)

lemma number_input_ge: "min_value \<le> value \<Longrightarrow> min_value \<le> number_input min_value value entered"
  by (simp add: number_input_def split: option.splits)



lemma compare_series_ge:
  "\<forall>r\<in>set rs. is_float (r k) \<Longrightarrow>
   compare_series ge_cell (map (\<lambda>r. r k) rs) x = Inr (map (\<lambda>r. ge_value (r k) x) rs)"
proof (induction rs)
  case Nil
  then show ?case by simp
next
  case (Cons r rs)
  then show ?case by (cases "r k") simp_all
qed

lemma compare_series_le:
  "\<forall>r\<in>set rs. is_float (r k) \<Longrightarrow>
   compare_series le_cell (map (\<lambda>r. r k) rs) x = Inr (map (\<lambda>r. le_value (r k) x) rs)"
proof (induction rs)
  case Nil
  then show ?case by simp
next
  case (Cons r rs)
  then show ?case by (cases "r k") simp_all
qed

lemma and_mask_map: "and_mask (map p rs) (map q rs) = map (\<lambda>r. p r \<and> q r) rs"
  by (induction rs) (simp_all add: and_mask_def)

lemma select_by_map: "map fst (filter snd (zip rs (map p rs))) = filter p rs"
  by (induction rs) simp_all

lemma ge_le_between: "(ge_value c lo \<and> le_value c hi) = between c lo hi"
  by (cases c) simp_all

lemma mask_filter1_eq:
  assumes "a \<in> set (columns fr)" and "\<forall>r\<in>set (rows fr). is_float (r a)"
  shows "mask_filter1 fr a lo hi = Inr (fr\<lparr>rows := filterBetween (rows fr) [(a, lo, hi)]\<rparr>)"
  using assms
  by (simp add: mask_filter1_def ge_mask_def le_mask_def getitem_def compare_series_ge
      compare_series_le and_mask_map select_rows_def select_by_map ge_le_between
      filterBetween_def)

lemma mask_filter2_eq:
  assumes "a \<in> set (columns fr)" and "\<forall>r\<in>set (rows fr). is_float (r a)"
    and "b \<in> set (columns fr)" and "\<forall>r\<in>set (rows fr). is_float (r b)"
  shows "mask_filter2 fr a lo1 hi1 b lo2 hi2 =
         Inr (fr\<lparr>rows := filterBetween (rows fr) [(a, lo1, hi1), (b, lo2, hi2)]\<rparr>)"
  using assms
  by (simp add: mask_filter2_def ge_mask_def le_mask_def getitem_def compare_series_ge
      compare_series_le and_mask_map select_rows_def select_by_map ge_le_between
      filterBetween_def conj_assoc)

lemma float_columnsD:
  assumes "float_columns fr"
  shows "Uebersetzung \<in> set (columns fr)" "Drehmoment_Modulator \<in> set (columns fr)"
    "Drehmoment_Rotor \<in> set (columns fr)"
    "\<forall>r\<in>set (rows fr). is_float (r Uebersetzung)"
    "\<forall>r\<in>set (rows fr). is_float (r Drehmoment_Modulator)"
    "\<forall>r\<in>set (rows fr). is_float (r Drehmoment_Rotor)"
  using assms by (simp_all add: float_columns_def list_all_iff)

lemma between_in_range: "between c (target - tolerance) (target + tolerance) = in_range c target tolerance"
  by (cases c) simp_all

lemma filterBetween_exact:
  "filterBetween rs [(a, t - x, t + x)] = filterByRange rs [(a, t, x)]"
  "filterBetween rs [(a, t - x, t + x), (b, u - y, u + y)] = filterByRange rs [(a, t, x), (b, u, y)]"
  by (simp_all add: filterBetween_def filterByRange_def between_in_range)

lemma filterBetween_subseq: "subseq (filterBetween rs bounds) rs"
  by (simp add: filterBetween_def)

lemmas filter_defs =
  Let_def gear_ratio_filtered_def torque_filtered_def torque_filtered_MOD_def
  combo_filtered_i_TRot_def combo_filtered_i_TMOD_def combo_filtered_TRot_TMOD_def

text \<open>
  Outside frames with float columns the filters raise. The frame built from an empty
  \<^verbatim>\<open>results\<close> has no columns, and looking one up raises KeyError (in the program this
  happens first at line 200); a text cell in the compared column raises TypeError.
\<close>

lemma empty_results_KeyError:
  "gear_ratio_filtered (DataFrame []) t entered = Inl KeyError"
  by (simp add: Let_def gear_ratio_filtered_def mask_filter1_def ge_mask_def getitem_def DataFrame_def)

lemma text_cell_TypeError:
  "torque_filtered
     (DataFrame [dict 0 (Num 10) (Num 20) (Num 8) (Num 2) (Num 3) (Text ''abc'')]) None None =
   Inl TypeError"
  by (simp add: Let_def torque_filtered_def mask_filter1_def ge_mask_def getitem_def DataFrame_def
      dict_simps)

text \<open>
  Claim C6 speaks of every record set. A sheet of one row is legal and yields no record;
  the frame built from the empty list has no columns, and a filter (here the one on the
  rotor torque, its two inputs untouched) raises KeyError where the claim has it return
  the empty subsequence.
\<close>
theorem filter_empty_results_counterexample:
  "extract_results [[Num 10]] = Inr []
   \<and> torque_filtered (DataFrame []) None None = Inl KeyError
   \<and> filterByRange [] [(Drehmoment_Rotor, 2, 1)] = []"
  by (simp add: extract_results_def iloc_row_def df_columns_def ncols_def iloc_def
      while_blocks.simps Let_def torque_filtered_def mask_filter1_def ge_mask_def getitem_def
      DataFrame_def filterByRange_def)

text \<open>
  Claim C6, as the code has it. On every record set that has the three filter columns
  with float cells, each of the six filters of the source returns exactly the records
  that pass its one or two triples: the field lies between the two bounds, which are
  \<open>target - tolerance\<close> and \<open>target + tolerance\<close> as the program computes them in double
  precision, both inclusive; the triples are combined with "and"; the records keep their
  order, and the result is a new frame, the input unchanged. The tolerance is the one the
  number input delivers, never negative. Where the two bounds are computed exactly the
  records are those of \<open>filterByRange\<close>. The witness filters six records on gear ratio
  2.0 with tolerance 0.5 and keeps the three with ratios 1.5, 2.0 and 2.5 (a blank ratio
  does not pass).
\<close>

theorem filters_keep_records_between:
  assumes "float_columns df_all"
    and "tol_i = number_input 0 1 entered_tol_i"
    and "target = number_input 0 2 entered_target"
    and "tol = number_input 0 1 entered_tol"
    and "tol_T = number_input 0 2 entered_tol"
    and "target' = number_input 0 2 entered_target'"
    and "tol' = number_input 0 1 entered_tol'"
  shows "gear_ratio_filtered df_all ratio entered_tol_i =
           Inr (df_all\<lparr>rows := filterBetween (rows df_all)
                  [(Uebersetzung, fl (ratio - tol_i), fl (ratio + tol_i))]\<rparr>)
       \<and> torque_filtered df_all entered_target entered_tol =
           Inr (df_all\<lparr>rows := filterBetween (rows df_all)
                  [(Drehmoment_Rotor, fl (target - tol), fl (target + tol))]\<rparr>)
       \<and> torque_filtered_MOD df_all entered_target entered_tol =
           Inr (df_all\<lparr>rows := filterBetween (rows df_all)
                  [(Drehmoment_Modulator, fl (target - tol), fl (target + tol))]\<rparr>)
       \<and> combo_filtered_i_TRot df_all ratio entered_tol_i entered_target entered_tol =
           Inr (df_all\<lparr>rows := filterBetween (rows df_all)
                  [(Uebersetzung, fl (ratio - tol_i), fl (ratio + tol_i)),
                   (Drehmoment_Rotor, fl (target - tol_T), fl (target + tol_T))]\<rparr>)
       \<and> combo_filtered_i_TMOD df_all ratio entered_tol_i entered_target entered_tol =
           Inr (df_all\<lparr>rows := filterBetween (rows df_all)
                  [(Uebersetzung, fl (ratio - tol_i), fl (ratio + tol_i)),
                   (Drehmoment_Modulator, fl (target - tol), fl (target + tol))]\<rparr>)
       \<and> combo_filtered_TRot_TMOD df_all entered_target entered_tol entered_target' entered_tol' =
           Inr (df_all\<lparr>rows := filterBetween (rows df_all)
                  [(Drehmoment_Modulator, fl (target - tol), fl (target + tol)),
                   (Drehmoment_Rotor, fl (target' - tol'), fl (target' + tol'))]\<rparr>)
       \<and> 0 \<le> tol_i \<and> 0 \<le> tol \<and> 0 \<le> tol_T \<and> 0 \<le> tol'
       \<and> subseq (filterBetween (rows df_all) bounds) (rows df_all)
       \<and> (fl (t - x) = t - x \<and> fl (t + x) = t + x \<longrightarrow>
            filterBetween (rows df_all) [(a, fl (t - x), fl (t + x))] =
            filterByRange (rows df_all) [(a, t, x)])"
  using float_columnsD [OF assms(1)] assms(2-)
  by (simp add: filter_defs mask_filter1_eq mask_filter2_eq filterBetween_subseq
      number_input_ge filterBetween_exact)

theorem filters_keep_records_between_witness:
  "gear_ratio_filtered
     (DataFrame [dict 0 (Num 10) (Num 20) (Num 8) (Num (3 / 2)) (Num 3) (Num 2),
                 dict 0 (Num 10) (Num 22) (Num 9) (Num 1) (Num 3) (Num 2),
                 dict 0 (Num 10) (Num 24) (Num 9) NaN (Num 3) (Num 2),
                 dict 1 (Num 12) (Num 25) (Num 7) (Num 2) (Num 3) (Num 2),
                 dict 1 (Num 12) (Num 26) (Num 7) (Num (5 / 2)) (Num 3) (Num 2),
                 dict 1 (Num 12) (Num 28) (Num 7) (Num 3) (Num 3) (Num 2)]) 2 (Some (1 / 2)) =
   Inr (DataFrame [dict 0 (Num 10) (Num 20) (Num 8) (Num (3 / 2)) (Num 3) (Num 2),
                   dict 1 (Num 12) (Num 25) (Num 7) (Num 2) (Num 3) (Num 2),
                   dict 1 (Num 12) (Num 26) (Num 7) (Num (5 / 2)) (Num 3) (Num 2)])"
  using filters_keep_records_between
    [of "DataFrame [dict 0 (Num 10) (Num 20) (Num 8) (Num (3 / 2)) (Num 3) (Num 2),
                 dict 0 (Num 10) (Num 22) (Num 9) (Num 1) (Num 3) (Num 2),
                 dict 0 (Num 10) (Num 24) (Num 9) NaN (Num 3) (Num 2),
                 dict 1 (Num 12) (Num 25) (Num 7) (Num 2) (Num 3) (Num 2),
                 dict 1 (Num 12) (Num 26) (Num 7) (Num (5 / 2)) (Num 3) (Num 2),
                 dict 1 (Num 12) (Num 28) (Num 7) (Num 3) (Num 3) (Num 2)]"
        "1 / 2" "Some (1 / 2)" 2 None 1 None 2 2 None 1 None 2, THEN conjunct1]
  by (simp add: float_columns_def DataFrame_def filterBetween_def dict_simps number_input_def
      fl_values)





end
